theory Spec2Isabelle
  imports Complex_Main "HOL-Library.Product_Lexorder"
begin

section \<open>Arrays\<close>

text \<open>
  The notebook stores numpy arrays in the patch. numpy is a library the notebook imports;
  an array is modelled as its shape, its dtype and its row-major buffer. An element is a
  rational number, an infinity or \<open>NaN\<close>: an integer array holds integers, a
  floating-point array holds the numbers its format can represent, the infinities and
  \<open>NaN\<close>. The dtypes are the ones the notebook uses and their common siblings.
\<close>

datatype scalar = Val rat | PInf | NInf | NaN

datatype np_dtype = np_bool | np_uint8 | np_uint16 | np_int32 | np_int64 | np_float32 | np_float64

record ndarray =
  shape :: "nat list"
  dtype :: np_dtype
  data :: "scalar list"

text \<open>\<open>np.zeros(shape, dtype)\<close>.\<close>

definition zeros :: "nat list \<Rightarrow> np_dtype \<Rightarrow> ndarray" where
  "zeros shp dt = \<lparr>shape = shp, dtype = dt, data = replicate (prod_list shp) (Val 0)\<rparr>"





subsection \<open>Floating-point arithmetic\<close>

text \<open>
  \<open>np.median\<close> computes in binary floating point, so its results are rounded. The
  binary exponent of a positive rational: \<open>ilog2 q = e\<close> when
  \<open>2 ^ e \<le> q < 2 ^ (e + 1)\<close>.
\<close>

function ilog2 :: "rat \<Rightarrow> int" where
  "ilog2 q = (if q \<le> 0 then 0
              else if 2 \<le> q then ilog2 (q / 2) + 1
              else if q < 1 then ilog2 (q * 2) - 1
              else 0)"
  by pat_completeness auto
termination
proof (relation "measure (\<lambda>q. 2 * nat \<lceil>1 / q\<rceil> + nat \<lfloor>q\<rfloor>)")
  show "wf (measure (\<lambda>q::rat. 2 * nat \<lceil>1 / q\<rceil> + nat \<lfloor>q\<rfloor>))" by simp
next
  fix q :: rat
  assume "\<not> q \<le> 0" and big: "2 \<le> q"
  have c1: "\<lceil>1 / q\<rceil> = 1" using big by (intro ceiling_unique) (auto simp: field_simps)
  have c2: "\<lceil>1 / (q / 2)\<rceil> = 1" using big by (intro ceiling_unique) (auto simp: field_simps)
  have "q / 2 \<le> q - 1" using big by simp
  then have "\<lfloor>q / 2\<rfloor> \<le> \<lfloor>q - 1\<rfloor>" by (rule floor_mono)
  then have f: "\<lfloor>q / 2\<rfloor> < \<lfloor>q\<rfloor>" by simp
  have "2 \<le> \<lfloor>q\<rfloor>" using big by (simp add: le_floor_iff)
  with f have "nat \<lfloor>q / 2\<rfloor> < nat \<lfloor>q\<rfloor>" by linarith
  then have "2 * nat \<lceil>1 / (q / 2)\<rceil> + nat \<lfloor>q / 2\<rfloor> < 2 * nat \<lceil>1 / q\<rceil> + nat \<lfloor>q\<rfloor>"
    unfolding c1 c2 by simp
  then show "(q / 2, q) \<in> measure (\<lambda>q. 2 * nat \<lceil>1 / q\<rceil> + nat \<lfloor>q\<rfloor>)"
    by (simp only: in_measure)
next
  fix q :: rat
  assume pos: "\<not> q \<le> 0" and "\<not> 2 \<le> q" and small: "q < 1"
  have fq: "\<lfloor>q\<rfloor> = 0" using pos small by (intro floor_unique) auto
  show "(q * 2, q) \<in> measure (\<lambda>q. 2 * nat \<lceil>1 / q\<rceil> + nat \<lfloor>q\<rfloor>)"
  proof (cases "1 / 2 \<le> q")
    case True
    have c1: "\<lceil>1 / q\<rceil> = 2" using True small pos by (intro ceiling_unique) (auto simp: field_simps)
    have c2: "\<lceil>1 / (q * 2)\<rceil> = 1" using True small pos by (intro ceiling_unique) (auto simp: field_simps)
    have f2: "\<lfloor>q * 2\<rfloor> = 1" using True small by (intro floor_unique) auto
    have "2 * nat \<lceil>1 / (q * 2)\<rceil> + nat \<lfloor>q * 2\<rfloor> < 2 * nat \<lceil>1 / q\<rceil> + nat \<lfloor>q\<rfloor>"
      unfolding c1 c2 fq f2 by simp
    then show ?thesis by (simp only: in_measure)
  next
    case False
    then have lt: "q < 1 / 2" by simp
    have f2: "\<lfloor>q * 2\<rfloor> = 0" using lt pos by (intro floor_unique) auto
    have "1 / (q * 2) \<le> 1 / q - 1" using lt pos by (simp add: field_simps)
    then have "\<lceil>1 / (q * 2)\<rceil> \<le> \<lceil>1 / q - 1\<rceil>" by (rule ceiling_mono)
    then have c: "\<lceil>1 / (q * 2)\<rceil> < \<lceil>1 / q\<rceil>" by simp
    with c have "nat \<lceil>1 / (q * 2)\<rceil> < nat \<lceil>1 / q\<rceil>" by linarith
    then have "2 * nat \<lceil>1 / (q * 2)\<rceil> + nat \<lfloor>q * 2\<rfloor> < 2 * nat \<lceil>1 / q\<rceil> + nat \<lfloor>q\<rfloor>"
      unfolding fq f2 by simp
    then show ?thesis by (simp only: in_measure)
  qed
qed

declare ilog2.simps [simp del]

text \<open>Rounding to the nearest integer, a tie to the even one.\<close>

definition round_even :: "rat \<Rightarrow> int" where
  "round_even x =
     (let f = \<lfloor>x\<rfloor>; d = x - of_int f
      in if d < 1 / 2 then f else if 1 / 2 < d then f + 1 else if even f then f else f + 1)"

text \<open>
  Rounding a rational to a binary format with \<open>p\<close> significant bits and exponents from
  \<open>emin\<close> to \<open>emax\<close> (IEEE 754, round to nearest, ties to even): the spacing of the
  format at the number is \<open>2 ^ (e - (p - 1))\<close>, where \<open>e\<close> is the number's exponent,
  not below \<open>emin\<close> (below it the numbers are subnormal); a result of magnitude
  \<open>2 ^ (emax + 1)\<close> or more overflows to an infinity.
\<close>

definition fl_round :: "nat \<Rightarrow> int \<Rightarrow> int \<Rightarrow> rat \<Rightarrow> scalar" where
  "fl_round p emin emax q =
     (if q = 0 then Val 0
      else
        let e = max (ilog2 \<bar>q\<bar>) emin;
            u = 2 powi (e - (int p - 1));
            r = of_int (round_even (q / u)) * u
        in if 2 powi (emax + 1) \<le> \<bar>r\<bar> then (if 0 < q then PInf else NInf) else Val r)"

definition is_float :: "np_dtype \<Rightarrow> bool" where
  "is_float dt = (dt = np_float32 \<or> dt = np_float64)"


definition fl :: "np_dtype \<Rightarrow> rat \<Rightarrow> scalar" where
  "fl dt q = (if dt = np_float32 then fl_round 24 (- 126) 127 q else fl_round 53 (- 1022) 1023 q)"

text \<open>The sum of two floating-point values, and the quotient by 2, in the format \<open>dt\<close>.\<close>

fun add_fl :: "np_dtype \<Rightarrow> scalar \<Rightarrow> scalar \<Rightarrow> scalar" where
  "add_fl dt (Val a) (Val b) = fl dt (a + b)"
| "add_fl dt NaN y = NaN"
| "add_fl dt x NaN = NaN"
| "add_fl dt PInf NInf = NaN"
| "add_fl dt NInf PInf = NaN"
| "add_fl dt PInf y = PInf"
| "add_fl dt x PInf = PInf"
| "add_fl dt NInf y = NInf"
| "add_fl dt x NInf = NInf"

fun half_fl :: "np_dtype \<Rightarrow> scalar \<Rightarrow> scalar" where
  "half_fl dt (Val a) = fl dt (a / 2)"
| "half_fl dt x = x"

subsection \<open>The median along the first axis\<close>

text \<open>
  Modelled from the spec: \<open>np.median\<close> is a function of the array library, which the
  repository imports and does not contain; the specification (scenario S3) calls its
  result the pixelwise median across \<open>T\<close>. numpy takes the middle element of the
  ordered values, or the two middle elements when their number is even, and returns
  their mean: for an integer or boolean array the elements are converted to double
  precision and the mean is a double, for a floating-point array the mean is computed in
  the array's own precision. The mean of one element is the (converted) element; the
  mean of two is their rounded sum, halved. No value, or a \<open>NaN\<close> among the values,
  gives \<open>NaN\<close>.
\<close>

definition median_dtype :: "np_dtype \<Rightarrow> np_dtype" where
  "median_dtype dt = (if dt = np_float32 then np_float32 else np_float64)"

fun to_float :: "np_dtype \<Rightarrow> scalar \<Rightarrow> scalar" where
  "to_float dt (Val q) = (if is_float dt then Val q else fl np_float64 q)"
| "to_float dt x = x"

text \<open>The order of the elements: minus infinity, the numbers, plus infinity, \<open>NaN\<close>.\<close>

fun skey :: "scalar \<Rightarrow> nat \<times> rat" where
  "skey NInf = (0, 0)"
| "skey (Val q) = (1, q)"
| "skey PInf = (2, 0)"
| "skey NaN = (3, 0)"

definition median :: "np_dtype \<Rightarrow> scalar list \<Rightarrow> scalar" where
  "median dt xs =
     (let n = length xs; rdt = median_dtype dt; s = sort_key skey xs
      in if n = 0 \<or> NaN \<in> set xs then NaN
         else if odd n then to_float dt (s ! (n div 2))
         else half_fl rdt (add_fl rdt (to_float dt (s ! (n div 2 - 1))) (to_float dt (s ! (n div 2)))))"

subsection \<open>The median of the specification\<close>




section \<open>The patch container\<close>

text \<open>
  Modelled from the spec: the patch class \<open>EOPatch\<close> and the enumeration
  \<open>FeatureType\<close> are library code (\<open>eolearn.core\<close>) that the notebook imports; the
  repository does not contain them. Sections 3 and 9: ten feature types, each a
  dictionary from names to payloads, and three metadata slots (bounding box, timestamps,
  meta information), unset in a new patch.
\<close>

datatype FeatureType =
  DATA | MASK | SCALAR | LABEL | VECTOR
  | DATA_TIMELESS | MASK_TIMELESS | SCALAR_TIMELESS | LABEL_TIMELESS | VECTOR_TIMELESS

text \<open>
  The error kinds of section 7 of the specification that a read or a write of a feature
  can end in, and \<open>NumpyError\<close> for an exception raised inside \<open>np.median\<close>.
\<close>

datatype error = ShapeMismatch | DtypeMismatch | MissingFeature | NumpyError

text \<open>A geometry table (\<open>gpd.read_file\<close>): its column names and its polygons.\<close>

record GeoDataFrame =
  columns :: "string list"
  geometries :: "(rat \<times> rat) list list"

datatype payload = Array ndarray | Frame GeoDataFrame

datatype CRS = WGS84 | POP_WEB

record BBox =
  min_x :: rat
  min_y :: rat
  max_x :: rat
  max_y :: rat
  crs :: CRS

record EOPatch =
  features :: "FeatureType \<Rightarrow> string \<rightharpoonup> payload"
  meta_info :: "string \<rightharpoonup> (string \<times> int) list"
  bbox :: "BBox option"
  timestamp :: "string list option"

text \<open>
  Modelled from the spec: \<open>EOPatch()\<close> (section 4.1, \<open>create\<close>): every feature
  dictionary empty, no metadata.
\<close>

definition EOPatch_new :: EOPatch where
  "EOPatch_new = \<lparr>features = (\<lambda>_. Map.empty), meta_info = Map.empty, bbox = None, timestamp = None\<rparr>"

subsection \<open>Validation of a write\<close>

text \<open>
  Modelled from the spec: the validation of a write is part of the absent patch class.
  The number of dimensions per feature type is the shape contract of the table in
  section 3 of the specification, which the notebook's comments repeat for \<open>data\<close>
  ("a numpy array with four dimensions, time x height x width x channel depth").
  The vector types hold tables, not arrays.
\<close>

fun ndim :: "FeatureType \<Rightarrow> nat option" where
  "ndim DATA = Some 4"
| "ndim MASK = Some 4"
| "ndim SCALAR = Some 2"
| "ndim LABEL = Some 2"
| "ndim DATA_TIMELESS = Some 3"
| "ndim MASK_TIMELESS = Some 3"
| "ndim SCALAR_TIMELESS = Some 1"
| "ndim LABEL_TIMELESS = Some 1"
| "ndim VECTOR = None"
| "ndim VECTOR_TIMELESS = None"

definition is_integer :: "np_dtype \<Rightarrow> bool" where
  "is_integer dt = (dt = np_uint8 \<or> dt = np_uint16 \<or> dt = np_int32 \<or> dt = np_int64)"

definition is_numeric :: "np_dtype \<Rightarrow> bool" where
  "is_numeric dt = (is_integer dt \<or> dt = np_float32 \<or> dt = np_float64)"

text \<open>
  Modelled from the spec: the dtype contract of the same table (numeric; integer or
  boolean; numeric or boolean), part of the absent library's validation.
\<close>

fun dtype_ok :: "FeatureType \<Rightarrow> np_dtype \<Rightarrow> bool" where
  "dtype_ok DATA dt = is_numeric dt"
| "dtype_ok MASK dt = (is_integer dt \<or> dt = np_bool)"
| "dtype_ok SCALAR dt = is_numeric dt"
| "dtype_ok LABEL dt = (is_numeric dt \<or> dt = np_bool)"
| "dtype_ok DATA_TIMELESS dt = is_numeric dt"
| "dtype_ok MASK_TIMELESS dt = (is_integer dt \<or> dt = np_bool)"
| "dtype_ok SCALAR_TIMELESS dt = is_numeric dt"
| "dtype_ok LABEL_TIMELESS dt = (is_numeric dt \<or> dt = np_bool)"
| "dtype_ok VECTOR dt = False"
| "dtype_ok VECTOR_TIMELESS dt = False"

text \<open>
  Modelled from the spec: the columns a geometry table needs (section 4.1: a geometry
  column and, for \<open>VECTOR\<close>, a \<open>TIMESTAMP\<close> column; the notebook inserts that column
  before it stores the table under \<open>vector\<close>).
\<close>

definition columns_ok :: "FeatureType \<Rightarrow> GeoDataFrame \<Rightarrow> bool" where
  "columns_ok ft g =
     (''geometry'' \<in> set (columns g) \<and> (ft = VECTOR \<longrightarrow> ''TIMESTAMP'' \<in> set (columns g)))"

text \<open>
  Modelled from the spec: the shared time axis (sections 3 and 4.1). \<open>DATA\<close>,
  \<open>MASK\<close>, \<open>SCALAR\<close> and \<open>LABEL\<close> are the timed raster and series types; once
  \<open>TIMESTAMP\<close> is set, with length \<open>T\<close>, a timed feature written afterwards has
  leading dimension \<open>T\<close>.
\<close>

fun timed :: "FeatureType \<Rightarrow> bool" where
  "timed DATA = True"
| "timed MASK = True"
| "timed SCALAR = True"
| "timed LABEL = True"
| "timed ft = False"

definition leading_dim :: "ndarray \<Rightarrow> nat option" where
  "leading_dim a = (case shape a of [] \<Rightarrow> None | d # rest \<Rightarrow> Some d)"

definition time_axis_ok :: "EOPatch \<Rightarrow> FeatureType \<Rightarrow> ndarray \<Rightarrow> bool" where
  "time_axis_ok p ft a =
     (case timestamp p of
        None \<Rightarrow> True
      | Some ts \<Rightarrow> timed ft \<longrightarrow> leading_dim a = Some (length ts))"

text \<open>
  Modelled from the spec: the check a write makes (library code, absent), sections 3, 4.1
  and 7. \<open>None\<close> means the payload is accepted. A wrong number of dimensions, a leading
  dimension that differs from the length of \<open>TIMESTAMP\<close>, or a missing column is a
  \<open>ShapeMismatch\<close> (the \<open>ValueError\<close> the notebook catches when it writes a
  3-dimensional array under \<open>data\<close>); a payload of the wrong kind or dtype family is a
  \<open>DtypeMismatch\<close>. The shape is checked before the dtype: the specification
  (section 8, law 5) makes every write with a wrong leading dimension a
  \<open>ShapeMismatch\<close>.
\<close>

definition check_payload :: "EOPatch \<Rightarrow> FeatureType \<Rightarrow> payload \<Rightarrow> error option" where
  "check_payload p ft v =
     (case v of
        Array a \<Rightarrow>
          (case ndim ft of
             None \<Rightarrow> Some DtypeMismatch
           | Some k \<Rightarrow>
               if length (shape a) \<noteq> k then Some ShapeMismatch
               else if \<not> time_axis_ok p ft a then Some ShapeMismatch
               else if \<not> dtype_ok ft (dtype a) then Some DtypeMismatch
               else None)
      | Frame g \<Rightarrow>
          (case ndim ft of
             Some k \<Rightarrow> Some DtypeMismatch
           | None \<Rightarrow> if columns_ok ft g then None else Some ShapeMismatch))"

text \<open>
  Modelled from the spec: \<open>patch[ftype][name] = payload\<close> (section 4.1,
  \<open>set_feature\<close>): validate against the patch, then store; a rejected write returns
  the error and no patch.
\<close>

definition set_feature :: "EOPatch \<Rightarrow> FeatureType \<Rightarrow> string \<Rightarrow> payload \<Rightarrow> error + EOPatch" where
  "set_feature p ft n v =
     (case check_payload p ft v of
        Some e \<Rightarrow> Inl e
      | None \<Rightarrow> Inr (p\<lparr>features := (features p)(ft := (features p ft)(n \<mapsto> v))\<rparr>))"

text \<open>
  Modelled from the spec: \<open>patch[ftype][name]\<close> (section 4.1, \<open>get_feature\<close>): the
  payload, or the missing-feature error (Python's \<open>KeyError\<close>).
\<close>

definition get_feature :: "EOPatch \<Rightarrow> FeatureType \<Rightarrow> string \<Rightarrow> error + payload" where
  "get_feature p ft n = (case features p ft n of None \<Rightarrow> Inl MissingFeature | Some v \<Rightarrow> Inr v)"

text \<open>
  The part of the contract that depends on the payload alone: the number of dimensions
  and the dtype family of an array, the columns of a table. Every write is checked, so a
  patch built through the interface holds conforming payloads only. (The time axis is
  checked against the timestamps of the moment of the write, which may be set or changed
  later; it is no invariant of the stored features.)
\<close>

definition conforms :: "FeatureType \<Rightarrow> payload \<Rightarrow> bool" where
  "conforms ft v =
     (case v of
        Array a \<Rightarrow> ndim ft = Some (length (shape a)) \<and> dtype_ok ft (dtype a)
      | Frame g \<Rightarrow> ndim ft = None \<and> columns_ok ft g)"

definition patch_ok :: "EOPatch \<Rightarrow> bool" where
  "patch_ok p = (\<forall>ft n v. features p ft n = Some v \<longrightarrow> conforms ft v)"

subsection \<open>Patches as objects\<close>

text \<open>
  Python passes patches by reference and the tasks mutate them in place, so a patch
  lives in a store and a task receives and returns a reference.
\<close>

type_synonym ref = nat

type_synonym heap = "ref \<Rightarrow> EOPatch"

text \<open>
  Modelled from the spec: the method \<open>eopatch.add_feature(ftype, name, payload)\<close>
  (section 4.1: "equivalent to \<open>set_feature\<close>"), library code. It updates the object
  in place, or raises and leaves the object as it was.
\<close>

definition add_feature :: "heap \<Rightarrow> ref \<Rightarrow> FeatureType \<Rightarrow> string \<Rightarrow> payload \<Rightarrow> (error + unit) \<times> heap" where
  "add_feature h r ft n v =
     (case set_feature (h r) ft n v of
        Inl e \<Rightarrow> (Inl e, h)
      | Inr p' \<Rightarrow> (Inr (), h(r := p')))"

section \<open>The notebook's task\<close>

text \<open>
  Modelled from the spec: \<open>np.median(x, axis=0)\<close>, the array library's function
  (absent, see \<open>median\<close>). A 0-dimensional array has no axis 0 and a geometry table
  has no median (numpy raises); otherwise the result drops the first axis, and its
  element \<open>j\<close> is the median of the elements \<open>j\<close>, \<open>stride + j\<close>,
  \<open>2 * stride + j\<close>, ... of the buffer, one per index of the first axis.
\<close>

definition np_median_axis0 :: "payload \<Rightarrow> error + ndarray" where
  "np_median_axis0 v =
     (case v of
        Frame g \<Rightarrow> Inl NumpyError
      | Array a \<Rightarrow>
          (case shape a of
             [] \<Rightarrow> Inl NumpyError
           | t # rest \<Rightarrow>
               (let stride = prod_list rest
                in Inr \<lparr>shape = rest, dtype = median_dtype (dtype a),
                        data = map (\<lambda>j. median (dtype a) (map (\<lambda>i. data a ! (i * stride + j)) [0..<t]))
                                 [0..<stride]\<rparr>)))"

text \<open>
  The class \<open>MedianPixel\<close>: the constructor stores the two \<open>(ftype, name)\<close> pairs.
\<close>

record MedianPixel =
  input_feature :: "FeatureType \<times> string"
  output_feature :: "FeatureType \<times> string"

text \<open>
  \<open>MedianPixel.execute(self, eopatch)\<close>: read the input feature, take the median along
  axis 0, write it with \<open>add_feature\<close>, return \<open>eopatch\<close>. Each of the three calls may
  raise; the exception leaves \<open>execute\<close> at once.
\<close>

definition MedianPixel_execute :: "MedianPixel \<Rightarrow> heap \<Rightarrow> ref \<Rightarrow> (error + ref) \<times> heap" where
  "MedianPixel_execute self h eopatch =
     (case get_feature (h eopatch) (fst (input_feature self)) (snd (input_feature self)) of
        Inl e \<Rightarrow> (Inl e, h)
      | Inr v \<Rightarrow>
          (case np_median_axis0 v of
             Inl e \<Rightarrow> (Inl e, h)
           | Inr m \<Rightarrow>
               (case add_feature h eopatch (fst (output_feature self)) (snd (output_feature self)) (Array m) of
                  (Inl e, h') \<Rightarrow> (Inl e, h')
                | (Inr u, h') \<Rightarrow> (Inr eopatch, h'))))"

text \<open>
  \<open>median_task = MedianPixel((FeatureType.DATA, 'time_series'),
  (FeatureType.DATA_TIMELESS, 'median'))\<close>.
\<close>

definition median_task :: MedianPixel where
  "median_task = \<lparr>input_feature = (DATA, ''time_series''), output_feature = (DATA_TIMELESS, ''median'')\<rparr>"

subsection \<open>The library task that adds a feature\<close>

text \<open>
  Modelled from the spec: \<open>AddFeature\<close> is a task of the library
  (\<open>eolearn.core.AddFeature\<close>), not in the repository. Section 4.2.1: constructed with an
  \<open>(ftype, name)\<close> target; \<open>execute(patch, payload)\<close> writes the payload to that slot
  under the feature type's validation and returns the patch.
\<close>

record AddFeature =
  feature :: "FeatureType \<times> string"

definition AddFeature_execute :: "AddFeature \<Rightarrow> heap \<Rightarrow> ref \<Rightarrow> payload \<Rightarrow> (error + ref) \<times> heap" where
  "AddFeature_execute self h eopatch v =
     (case add_feature h eopatch (fst (feature self)) (snd (feature self)) v of
        (Inl e, h') \<Rightarrow> (Inl e, h')
      | (Inr u, h') \<Rightarrow> (Inr eopatch, h'))"

subsection \<open>Values the notebook builds\<close>

text \<open>\<open>example_bands = np.zeros((5, 10, 10, 3), dtype=np.uint16)\<close>.\<close>

definition example_bands :: ndarray where
  "example_bands = zeros [5, 10, 10, 3] np_uint16"

text \<open>\<open>timeless_data = np.zeros((10, 10, 13), dtype=np.uint16)\<close>.\<close>

definition timeless_data :: ndarray where
  "timeless_data = zeros [10, 10, 13] np_uint16"

text \<open>\<open>data = np.zeros((5, 100, 100, 13))\<close>; numpy's default dtype is double.\<close>

definition bands_data :: ndarray where
  "bands_data = zeros [5, 100, 100, 13] np_float64"

text \<open>
  A new patch after \<open>patch.data['example'] = example_bands\<close>, and the same patch after
  \<open>patch.timestamp = [datetime.now()]\<close>, with a fixed instant for \<open>now\<close>. (The
  notebook's patch holds further features by then; a write under \<open>data\<close> does not read
  them.)
\<close>

definition patch_with_example :: EOPatch where
  "patch_with_example =
     EOPatch_new\<lparr>features := (\<lambda>_. Map.empty)(DATA := [''example'' \<mapsto> Array example_bands])\<rparr>"

definition patch_with_timestamp :: EOPatch where
  "patch_with_timestamp = patch_with_example\<lparr>timestamp := Some [''2019-08-27T10:30:00'']\<rparr>"

text \<open>
  \<open>add_feature = AddFeature((FeatureType.DATA, 'bands'))\<close>.
\<close>

definition add_bands :: AddFeature where
  "add_bands = \<lparr>feature = (DATA, ''bands'')\<rparr>"

text \<open>An array with one date, for the same slot.\<close>

definition one_date :: ndarray where
  "one_date = zeros [1, 100, 100, 13] np_float64"

subsection \<open>Two small time series\<close>

text \<open>
  Four dates of a 1 x 2 image with one band: the pixel \<open>(0, 0)\<close> has the values
  5, 3, 4, 10 and the pixel \<open>(0, 1)\<close> the values 1, 9, 2, 2. The patch that holds it
  also has a bounding box, four timestamps and a second feature.
\<close>

definition series4 :: ndarray where
  "series4 = \<lparr>shape = [4, 1, 2, 1], dtype = np_uint16,
               data = [Val 5, Val 1, Val 3, Val 9, Val 4, Val 2, Val 10, Val 2]\<rparr>"

definition patch_with_series :: EOPatch where
  "patch_with_series =
     \<lparr>features = (\<lambda>_. Map.empty)
         (DATA := [''time_series'' \<mapsto> Array series4],
          SCALAR_TIMELESS := [''single patch value'' \<mapsto> Array \<lparr>shape = [1], dtype = np_float64, data = [Val 5]\<rparr>]),
       meta_info = [''any_property'' \<mapsto> [(''a'', 5), (''b'', 3)]],
       bbox = Some \<lparr>min_x = 2608 / 100, min_y = 4442 / 100, max_x = 2614 / 100, max_y = 4446 / 100, crs = WGS84\<rparr>,
       timestamp = Some [''2019-08-23'', ''2019-08-25'', ''2019-08-26'', ''2019-08-27'']\<rparr>"



section \<open>Theorems\<close>

subsection \<open>Rounding\<close>







subsection \<open>Sorting values\<close>



subsection \<open>Ranks in a sorted list\<close>









subsection \<open>The median of integer values\<close>











subsection \<open>Indexing and the median along axis 0\<close>






lemma np_median_axis0_shape:
  assumes "np_median_axis0 (Array a) = Inr m"
  shows "shape a \<noteq> [] \<and> shape m = tl (shape a) \<and> dtype m = median_dtype (dtype a)"
  using assms by (auto simp: np_median_axis0_def Let_def split: list.splits)

lemma np_median_axis0_defined:
  assumes "shape a \<noteq> []"
  shows "\<exists>m. np_median_axis0 (Array a) = Inr m"
  using assms by (auto simp: np_median_axis0_def Let_def split: list.splits)

lemma is_numeric_median_dtype: "is_numeric (median_dtype dt)"
  by (simp add: median_dtype_def is_numeric_def is_integer_def)



subsection \<open>Reads and writes\<close>

lemma get_feature_None:
  "features p ft n = None \<Longrightarrow> get_feature p ft n = Inl MissingFeature"
  by (simp add: get_feature_def)

lemma time_axis_ok_untimed:
  assumes "\<not> timed ft"
  shows "time_axis_ok p ft a"
  using assms by (simp add: time_axis_ok_def split: option.splits)

lemma timed_ndim:
  assumes "timed ft"
  shows "\<exists>k. ndim ft = Some k"
  using assms by (cases ft) simp_all

lemma add_feature_accepted:
  assumes "check_payload (h r) ft v = None"
  shows "add_feature h r ft n v =
           (Inr (), h(r := (h r)\<lparr>features := (features (h r))(ft := (features (h r) ft)(n \<mapsto> v))\<rparr>))"
  using assms by (simp add: add_feature_def set_feature_def)

lemma add_feature_rejected:
  assumes "check_payload (h r) ft v = Some e"
  shows "add_feature h r ft n v = (Inl e, h)"
  using assms by (simp add: add_feature_def set_feature_def)

text \<open>An accepted payload conforms, so the interface keeps a patch within \<open>patch_ok\<close>.\<close>

lemma check_payload_conforms:
  assumes "check_payload p ft v = None"
  shows "conforms ft v"
  using assms
  by (auto simp: check_payload_def conforms_def split: payload.splits option.splits if_splits)

lemma EOPatch_new_ok: "patch_ok EOPatch_new"
  by (simp add: patch_ok_def EOPatch_new_def)

lemma set_feature_ok:
  assumes "patch_ok p" and "set_feature p ft n v = Inr p'"
  shows "patch_ok p'"
proof -
  from assms(2) have chk: "check_payload p ft v = None"
    and p': "p' = p\<lparr>features := (features p)(ft := (features p ft)(n \<mapsto> v))\<rparr>"
    by (auto simp: set_feature_def split: option.splits)
  show ?thesis
    using assms(1) check_payload_conforms [OF chk] by (auto simp: patch_ok_def p')
qed

lemma metadata_ok:
  assumes "patch_ok p"
  shows "patch_ok (p\<lparr>timestamp := ts\<rparr>)" and "patch_ok (p\<lparr>bbox := b\<rparr>)" and "patch_ok (p\<lparr>meta_info := mi\<rparr>)"
  using assms by (simp_all add: patch_ok_def)

text \<open>
  The model reproduces the three writes the notebook demonstrates: four dimensions under
  \<open>data\<close> are stored, three dimensions under \<open>data\<close> are refused, three dimensions under
  \<open>data_timeless\<close> are stored.
\<close>

lemma notebook_data_example:
  "set_feature EOPatch_new DATA ''example'' (Array example_bands) = Inr patch_with_example"
  by (simp add: set_feature_def check_payload_def time_axis_ok_def example_bands_def zeros_def
      is_numeric_def is_integer_def patch_with_example_def EOPatch_new_def)

lemma notebook_data_timeless_example_refused:
  "set_feature patch_with_example DATA ''timeless_example'' (Array timeless_data) = Inl ShapeMismatch"
  by (simp add: set_feature_def check_payload_def timeless_data_def zeros_def)

lemma notebook_data_timeless_example:
  "\<exists>p'. set_feature patch_with_example DATA_TIMELESS ''timeless_example'' (Array timeless_data) = Inr p'
        \<and> get_feature p' DATA_TIMELESS ''timeless_example'' = Inr (Array timeless_data)"
  by (simp add: set_feature_def check_payload_def time_axis_ok_untimed timeless_data_def zeros_def
      is_numeric_def is_integer_def get_feature_def)

subsection \<open>The median task\<close>

lemma MedianPixel_execute_error_unchanged:
  assumes "fst (MedianPixel_execute self h eopatch) = Inl e"
  shows "snd (MedianPixel_execute self h eopatch) = h"
  using assms
  by (auto simp: MedianPixel_execute_def add_feature_def split: sum.splits prod.splits)

text \<open>
  The median of a conforming \<open>DATA\<close> payload always fits \<open>DATA_TIMELESS\<close>, on every
  patch: one dimension fewer, a floating-point dtype, and no time axis to agree with.
\<close>

lemma median_of_DATA_accepted:
  assumes "conforms DATA v"
  shows "\<exists>m. np_median_axis0 v = Inr m \<and> check_payload p DATA_TIMELESS (Array m) = None"
proof -
  obtain a where v: "v = Array a" and len: "length (shape a) = 4"
    using assms by (auto simp: conforms_def split: payload.splits)
  from len have ne: "shape a \<noteq> []" by auto
  then obtain m where m: "np_median_axis0 (Array a) = Inr m"
    using np_median_axis0_defined by blast
  from np_median_axis0_shape [OF m] len have "length (shape m) = 3" and "dtype m = median_dtype (dtype a)"
    by auto
  then have "check_payload p DATA_TIMELESS (Array m) = None"
    by (simp add: check_payload_def is_numeric_median_dtype time_axis_ok_untimed)
  with m v show ?thesis by blast
qed

text \<open>
  So the task as the notebook configures it, from \<open>DATA\<close> to \<open>DATA_TIMELESS\<close>, returns
  whenever a patch built through the interface holds the input, and it keeps the patch
  within \<open>patch_ok\<close>.
\<close>

lemma MedianPixel_execute_DATA_returns:
  assumes ok: "patch_ok (h eopatch)"
      and cfg: "fst (input_feature self) = DATA" "fst (output_feature self) = DATA_TIMELESS"
      and inp: "features (h eopatch) DATA (snd (input_feature self)) = Some v"
  shows "fst (MedianPixel_execute self h eopatch) = Inr eopatch"
proof -
  have chk: "conforms DATA v" using ok inp by (simp add: patch_ok_def)
  obtain m where med: "np_median_axis0 v = Inr m"
      and acc: "check_payload (h eopatch) DATA_TIMELESS (Array m) = None"
    using median_of_DATA_accepted [OF chk] by blast
  show ?thesis
    using cfg inp
    by (simp add: MedianPixel_execute_def get_feature_def med add_feature_accepted [of h eopatch, OF acc])
qed

lemma MedianPixel_execute_ok:
  assumes "patch_ok (h r)"
  shows "patch_ok (snd (MedianPixel_execute self h eopatch) r)"
proof (cases "MedianPixel_execute self h eopatch")
  case (Pair res h')
  show ?thesis
  proof (cases res)
    case (Inl e)
    with Pair MedianPixel_execute_error_unchanged [of self h eopatch e] assms show ?thesis by simp
  next
    case (Inr r')
    with Pair obtain m where
      chk: "check_payload (h eopatch) (fst (output_feature self)) (Array m) = None" and
      h': "h' = h(eopatch := (h eopatch)\<lparr>features := (features (h eopatch))
             (fst (output_feature self) := (features (h eopatch) (fst (output_feature self)))
                (snd (output_feature self) \<mapsto> Array m))\<rparr>)"
      by (auto simp: MedianPixel_execute_def add_feature_def set_feature_def
          split: sum.splits option.splits prod.splits)
    show ?thesis
      using assms check_payload_conforms [OF chk] Pair by (auto simp: patch_ok_def h')
  qed
qed




text \<open>
  Claim C10. On a patch that does not hold the configured input feature,
  \<open>MedianPixel.execute\<close> fails with the missing-feature error, and the store is the one
  it was called with: no object has been written to.
\<close>

theorem MedianPixel_execute_missing_input:
  assumes "features (h eopatch) (fst (input_feature self)) (snd (input_feature self)) = None"
  shows "MedianPixel_execute self h eopatch = (Inl MissingFeature, h)"
  using assms by (simp add: MedianPixel_execute_def get_feature_None)

theorem MedianPixel_execute_missing_input_witness:
  "features ((\<lambda>_. patch_with_example) (0::nat)) (fst (input_feature median_task)) (snd (input_feature median_task)) = None
   \<and> MedianPixel_execute median_task (\<lambda>_. patch_with_example) 0 = (Inl MissingFeature, (\<lambda>_. patch_with_example))"
proof -
  have none: "features ((\<lambda>_. patch_with_example) (0::nat)) (fst (input_feature median_task)) (snd (input_feature median_task)) = None"
    by (simp add: patch_with_example_def median_task_def)
  show ?thesis
    using none MedianPixel_execute_missing_input [OF none] by simp
qed

text \<open>
  Claim C9, as stated, fails: a patch can hold the configured input feature and
  \<open>execute\<close> still not return. With the output configured under \<open>DATA\<close>, the median of
  the notebook's \<open>example\<close> array has three dimensions, the write is refused as the
  notebook's own 3-dimensional write under \<open>data\<close> is, and \<open>execute\<close> raises.
\<close>

theorem MedianPixel_execute_rejected_output:
  "get_feature ((\<lambda>_. patch_with_example) (0::nat)) DATA ''example'' = Inr (Array example_bands)
   \<and> MedianPixel_execute \<lparr>input_feature = (DATA, ''example''), output_feature = (DATA, ''median'')\<rparr>
        (\<lambda>_. patch_with_example) 0 = (Inl ShapeMismatch, (\<lambda>_. patch_with_example))"
proof -
  have inp: "get_feature ((\<lambda>_. patch_with_example) (0::nat)) DATA ''example'' = Inr (Array example_bands)"
    by (simp add: get_feature_def patch_with_example_def)
  have "shape example_bands = [5, 10, 10, 3]" by (simp add: example_bands_def zeros_def)
  then obtain m where med: "np_median_axis0 (Array example_bands) = Inr m"
    using np_median_axis0_defined [of example_bands] by auto
  from np_median_axis0_shape [OF med] have "shape m = [10, 10, 3]"
    by (simp add: example_bands_def zeros_def)
  then have "check_payload patch_with_example DATA (Array m) = Some ShapeMismatch"
    by (simp add: check_payload_def)
  then have add: "add_feature (\<lambda>_. patch_with_example) 0 DATA ''median'' (Array m)
      = (Inl ShapeMismatch, (\<lambda>_. patch_with_example))"
    by (simp add: add_feature_def set_feature_def)
  have "MedianPixel_execute \<lparr>input_feature = (DATA, ''example''), output_feature = (DATA, ''median'')\<rparr>
        (\<lambda>_. patch_with_example) 0 = (Inl ShapeMismatch, (\<lambda>_. patch_with_example))"
    using inp by (simp add: MedianPixel_execute_def med add)
  with inp show ?thesis by blast
qed

text \<open>
  Claim C9, amended. On a patch that holds the configured input feature,
  \<open>MedianPixel.execute\<close> either returns the reference it received or raises and leaves
  the store as it was. It returns whenever the median of the input along axis 0 passes the
  validation of the output feature type on that patch; for an input under \<open>DATA\<close> that
  conforms to the contract of \<open>DATA\<close> and an output under \<open>DATA_TIMELESS\<close>, as the
  notebook configures the task, it always returns. In both cases no other object of the
  store changes, and in the patch every feature slot other than the output slot, the
  bounding box, the timestamps and the meta information are what they were.
\<close>

theorem MedianPixel_execute_frame:
  assumes inp: "get_feature (h eopatch) (fst (input_feature self)) (snd (input_feature self)) = Inr v"
  shows "\<exists>res h'. MedianPixel_execute self h eopatch = (res, h')
           \<and> (res = Inr eopatch \<or> (\<exists>e. res = Inl e \<and> h' = h))
           \<and> ((\<exists>m. np_median_axis0 v = Inr m
                   \<and> check_payload (h eopatch) (fst (output_feature self)) (Array m) = None)
                \<longrightarrow> res = Inr eopatch)
           \<and> (fst (input_feature self) = DATA \<and> fst (output_feature self) = DATA_TIMELESS \<and> conforms DATA v
                \<longrightarrow> res = Inr eopatch)
           \<and> (\<forall>r. r \<noteq> eopatch \<longrightarrow> h' r = h r)
           \<and> (\<forall>ft n. (ft, n) \<noteq> output_feature self \<longrightarrow> features (h' eopatch) ft n = features (h eopatch) ft n)
           \<and> bbox (h' eopatch) = bbox (h eopatch)
           \<and> timestamp (h' eopatch) = timestamp (h eopatch)
           \<and> meta_info (h' eopatch) = meta_info (h eopatch)"
proof -
  obtain oft on where out: "output_feature self = (oft, on)" by (cases "output_feature self")
  have main: "\<exists>res h'. MedianPixel_execute self h eopatch = (res, h')
           \<and> (res = Inr eopatch \<or> (\<exists>e. res = Inl e \<and> h' = h))
           \<and> ((\<exists>m. np_median_axis0 v = Inr m
                   \<and> check_payload (h eopatch) (fst (output_feature self)) (Array m) = None)
                \<longrightarrow> res = Inr eopatch)
           \<and> (\<forall>r. r \<noteq> eopatch \<longrightarrow> h' r = h r)
           \<and> (\<forall>ft n. (ft, n) \<noteq> output_feature self \<longrightarrow> features (h' eopatch) ft n = features (h eopatch) ft n)
           \<and> bbox (h' eopatch) = bbox (h eopatch)
           \<and> timestamp (h' eopatch) = timestamp (h eopatch)
           \<and> meta_info (h' eopatch) = meta_info (h eopatch)"
  proof (cases "np_median_axis0 v")
    case (Inl e)
    then have "MedianPixel_execute self h eopatch = (Inl e, h)"
      by (simp add: MedianPixel_execute_def inp)
    then show ?thesis using Inl by auto
  next
    case (Inr m)
    show ?thesis
    proof (cases "check_payload (h eopatch) oft (Array m)")
      case (Some e)
      have "MedianPixel_execute self h eopatch = (Inl e, h)"
        by (simp add: MedianPixel_execute_def inp Inr out add_feature_rejected [of h eopatch, OF Some])
      then show ?thesis using Inr Some out by auto
    next
      case None
      define h' where "h' = h(eopatch := (h eopatch)\<lparr>features := (features (h eopatch))
          (oft := (features (h eopatch) oft)(on \<mapsto> Array m))\<rparr>)"
      have run: "MedianPixel_execute self h eopatch = (Inr eopatch, h')"
        by (simp add: MedianPixel_execute_def inp Inr out add_feature_accepted [of h eopatch, OF None] h'_def)
      have others: "\<forall>r. r \<noteq> eopatch \<longrightarrow> h' r = h r"
        by (simp add: h'_def)
      have slots: "\<forall>ft n. (ft, n) \<noteq> output_feature self \<longrightarrow> features (h' eopatch) ft n = features (h eopatch) ft n"
        by (auto simp: h'_def out)
      have meta: "bbox (h' eopatch) = bbox (h eopatch)" "timestamp (h' eopatch) = timestamp (h eopatch)"
        "meta_info (h' eopatch) = meta_info (h eopatch)"
        by (simp_all add: h'_def)
      show ?thesis using run others slots meta by blast
    qed
  qed
  have data_case: "\<exists>m. np_median_axis0 v = Inr m
                     \<and> check_payload (h eopatch) (fst (output_feature self)) (Array m) = None"
    if "fst (output_feature self) = DATA_TIMELESS" "conforms DATA v"
    using median_of_DATA_accepted [OF that(2), of "h eopatch"] that(1) by simp
  from main obtain res h' where
    "MedianPixel_execute self h eopatch = (res, h')"
    "res = Inr eopatch \<or> (\<exists>e. res = Inl e \<and> h' = h)"
    "(\<exists>m. np_median_axis0 v = Inr m
         \<and> check_payload (h eopatch) (fst (output_feature self)) (Array m) = None)
      \<longrightarrow> res = Inr eopatch"
    "\<forall>r. r \<noteq> eopatch \<longrightarrow> h' r = h r"
    "\<forall>ft n. (ft, n) \<noteq> output_feature self \<longrightarrow> features (h' eopatch) ft n = features (h eopatch) ft n"
    "bbox (h' eopatch) = bbox (h eopatch)"
    "timestamp (h' eopatch) = timestamp (h eopatch)"
    "meta_info (h' eopatch) = meta_info (h eopatch)"
    by blast
  moreover from this(3) data_case
  have "fst (input_feature self) = DATA \<and> fst (output_feature self) = DATA_TIMELESS \<and> conforms DATA v
          \<longrightarrow> res = Inr eopatch"
    by blast
  ultimately show ?thesis by blast
qed

theorem MedianPixel_execute_frame_witness:
  "get_feature ((\<lambda>_. patch_with_series) (0::nat)) (fst (input_feature median_task)) (snd (input_feature median_task))
      = Inr (Array series4)
   \<and> fst (input_feature median_task) = DATA \<and> fst (output_feature median_task) = DATA_TIMELESS
   \<and> conforms DATA (Array series4)
   \<and> (\<exists>h'. MedianPixel_execute median_task (\<lambda>_. patch_with_series) 0 = (Inr 0, h')
          \<and> h' 1 = patch_with_series
          \<and> features (h' 0) DATA ''time_series'' = Some (Array series4)
          \<and> features (h' 0) SCALAR_TIMELESS ''single patch value'' = features patch_with_series SCALAR_TIMELESS ''single patch value''
          \<and> bbox (h' 0) = bbox patch_with_series
          \<and> timestamp (h' 0) = Some [''2019-08-23'', ''2019-08-25'', ''2019-08-26'', ''2019-08-27''])"
proof -
  have inp: "get_feature ((\<lambda>_. patch_with_series) (0::nat)) (fst (input_feature median_task)) (snd (input_feature median_task)) = Inr (Array series4)"
    by (simp add: get_feature_def patch_with_series_def median_task_def)
  have cfg: "fst (input_feature median_task) = DATA" "fst (output_feature median_task) = DATA_TIMELESS"
    by (simp_all add: median_task_def)
  have con: "conforms DATA (Array series4)"
    by (simp add: conforms_def series4_def is_numeric_def is_integer_def)
  obtain res h' where run: "MedianPixel_execute median_task (\<lambda>_. patch_with_series) 0 = (res, h')"
      and ret: "fst (input_feature median_task) = DATA \<and> fst (output_feature median_task) = DATA_TIMELESS
                  \<and> conforms DATA (Array series4) \<longrightarrow> res = Inr 0"
      and others: "\<forall>r. r \<noteq> 0 \<longrightarrow> h' r = (\<lambda>_. patch_with_series) r"
      and slots: "\<forall>ft n. (ft, n) \<noteq> output_feature median_task \<longrightarrow>
                    features (h' 0) ft n = features ((\<lambda>_. patch_with_series) (0::nat)) ft n"
      and bb: "bbox (h' 0) = bbox ((\<lambda>_. patch_with_series) (0::nat))"
      and ts: "timestamp (h' 0) = timestamp ((\<lambda>_. patch_with_series) (0::nat))"
    using MedianPixel_execute_frame [OF inp] by blast
  have "res = Inr 0" using ret cfg con by blast
  moreover have "h' 1 = patch_with_series" using others by simp
  moreover have "features (h' 0) DATA ''time_series'' = Some (Array series4)"
    using slots [rule_format, of DATA "''time_series''"]
    by (simp add: median_task_def patch_with_series_def)
  moreover have "features (h' 0) SCALAR_TIMELESS ''single patch value'' = features patch_with_series SCALAR_TIMELESS ''single patch value''"
    using slots [rule_format, of SCALAR_TIMELESS "''single patch value''"]
    by (simp add: median_task_def)
  moreover have "bbox (h' 0) = bbox patch_with_series" using bb by simp
  moreover have "timestamp (h' 0) = Some [''2019-08-23'', ''2019-08-25'', ''2019-08-26'', ''2019-08-27'']"
    using ts by (simp add: patch_with_series_def)
  ultimately show ?thesis using inp cfg con run by blast
qed

subsection \<open>Writes after the timestamps are set\<close>

text \<open>
  Claim C4. On a patch whose timestamps are set, with length \<open>T\<close>, the write of an array
  under a timed feature type (\<open>DATA\<close>, \<open>MASK\<close>, \<open>SCALAR\<close>, \<open>LABEL\<close>) fails with
  \<open>ShapeMismatch\<close> and leaves the store as it was when the leading dimension of the
  array is not \<open>T\<close>; when it is \<open>T\<close>, and the array has the feature type's number of
  dimensions and a dtype of its family, the write succeeds, the feature reads back and
  the timestamps are unchanged. The witness is the notebook's step: the patch has one
  timestamp, and \<open>add_feature.execute(patch, data)\<close> with five dates is refused, while
  an array with one date is stored.
\<close>

theorem AddFeature_execute_time_axis:
  assumes ts: "timestamp (h eopatch) = Some ts"
      and tgt: "feature self = (ft, n)"
      and timed: "timed ft"
  shows "(leading_dim a \<noteq> Some (length ts)
            \<longrightarrow> AddFeature_execute self h eopatch (Array a) = (Inl ShapeMismatch, h))
       \<and> (leading_dim a = Some (length ts) \<and> ndim ft = Some (length (shape a)) \<and> dtype_ok ft (dtype a)
            \<longrightarrow> (\<exists>h'. AddFeature_execute self h eopatch (Array a) = (Inr eopatch, h')
                    \<and> get_feature (h' eopatch) ft n = Inr (Array a)
                    \<and> timestamp (h' eopatch) = Some ts))"
proof (intro conjI impI)
  assume bad: "leading_dim a \<noteq> Some (length ts)"
  obtain k where k: "ndim ft = Some k" using timed_ndim [OF timed] by blast
  have "\<not> time_axis_ok (h eopatch) ft a"
    using bad ts timed by (simp add: time_axis_ok_def)
  then have "check_payload (h eopatch) ft (Array a) = Some ShapeMismatch"
    by (simp add: check_payload_def k)
  from add_feature_rejected [of h eopatch, OF this]
  show "AddFeature_execute self h eopatch (Array a) = (Inl ShapeMismatch, h)"
    by (simp add: AddFeature_execute_def tgt)
next
  assume good: "leading_dim a = Some (length ts) \<and> ndim ft = Some (length (shape a)) \<and> dtype_ok ft (dtype a)"
  have "time_axis_ok (h eopatch) ft a"
    using good ts by (simp add: time_axis_ok_def)
  then have chk: "check_payload (h eopatch) ft (Array a) = None"
    using good by (simp add: check_payload_def)
  show "\<exists>h'. AddFeature_execute self h eopatch (Array a) = (Inr eopatch, h')
          \<and> get_feature (h' eopatch) ft n = Inr (Array a)
          \<and> timestamp (h' eopatch) = Some ts"
    using ts tgt by (simp add: AddFeature_execute_def add_feature_accepted [of h eopatch, OF chk] get_feature_def)
qed

theorem AddFeature_execute_time_axis_witness:
  "timestamp ((\<lambda>_. patch_with_timestamp) (0::nat)) = Some [''2019-08-27T10:30:00'']
   \<and> feature add_bands = (DATA, ''bands'')
   \<and> timed DATA
   \<and> leading_dim bands_data = Some 5
   \<and> AddFeature_execute add_bands (\<lambda>_. patch_with_timestamp) 0 (Array bands_data)
        = (Inl ShapeMismatch, (\<lambda>_. patch_with_timestamp))
   \<and> leading_dim one_date = Some 1
   \<and> ndim DATA = Some (length (shape one_date)) \<and> dtype_ok DATA (dtype one_date)
   \<and> (\<exists>h'. AddFeature_execute add_bands (\<lambda>_. patch_with_timestamp) 0 (Array one_date) = (Inr 0, h')
          \<and> get_feature (h' 0) DATA ''bands'' = Inr (Array one_date)
          \<and> timestamp (h' 0) = Some [''2019-08-27T10:30:00''])"
proof -
  have ts: "timestamp ((\<lambda>_. patch_with_timestamp) (0::nat)) = Some [''2019-08-27T10:30:00'']"
    by (simp add: patch_with_timestamp_def)
  have tgt: "feature add_bands = (DATA, ''bands'')" by (simp add: add_bands_def)
  have timed: "timed DATA" by simp
  have five: "leading_dim bands_data = Some 5"
    by (simp add: leading_dim_def bands_data_def zeros_def)
  have one: "leading_dim one_date = Some 1"
    by (simp add: leading_dim_def one_date_def zeros_def)
  have arity: "ndim DATA = Some (length (shape one_date))"
    by (simp add: one_date_def zeros_def)
  have fam: "dtype_ok DATA (dtype one_date)"
    by (simp add: one_date_def zeros_def is_numeric_def)
  have len: "length [''2019-08-27T10:30:00''] = 1" by simp
  note rule = AddFeature_execute_time_axis [OF ts tgt timed]
  have refused: "AddFeature_execute add_bands (\<lambda>_. patch_with_timestamp) 0 (Array bands_data)
        = (Inl ShapeMismatch, (\<lambda>_. patch_with_timestamp))"
    using rule [of bands_data] five by (simp only: len) simp
  have stored: "\<exists>h'. AddFeature_execute add_bands (\<lambda>_. patch_with_timestamp) 0 (Array one_date) = (Inr 0, h')
          \<and> get_feature (h' 0) DATA ''bands'' = Inr (Array one_date)
          \<and> timestamp (h' 0) = Some [''2019-08-27T10:30:00'']"
    using rule [of one_date] one arity fam by (simp only: len)
  show ?thesis using ts tgt timed five refused one arity fam stored by blast
qed

end
